theory Spec2Isabelle
  imports Complex_Main
begin

section \<open>Crypto price tracker: data model\<close>

text \<open>
  Python floats are modelled as \<^typ>\<open>real\<close> (exact arithmetic, no rounding, no
  \<open>inf\<close>/\<open>nan\<close>), Python ints as \<^typ>\<open>int\<close>, dictionaries as maps, lists as
  lists. Every exception of the source is a value of \<open>exn\<close>; a function that can
  raise returns \<open>exn + 'a\<close> (\<open>Inl\<close> the exception) together with the state as it
  was when the exception left the function.
\<close>

datatype exn =
    ZeroDivisionError
  | CollaboratorError
  | SendError
  | JSONDecodeError
  | AttributeError
  | TypeError
  | ValueError
  | ConnectionClosed
  | InvalidStatusCode
  | CancelledError
  | OtherError

text \<open>One element of \<open>price_changes[symbol]\<close>: the dict
  \<open>{"price": ..., "timestamp": ...}\<close>.\<close>

record entry =
  entry_price :: real
  entry_timestamp :: int

text \<open>A candle of the historical-data collaborator; the tracker reads
  \<open>float(kline[2])\<close> (high) and \<open>float(kline[3])\<close> (low), taken here as already
  parsed numbers.\<close>

record kline =
  high :: real
  low :: real

text \<open>\<open>api_client.get_historical_data(symbol, limit)\<close> is an external collaborator.
  Its answers are given by a script: the answer to the \<open>n\<close>-th call made so far, for the
  symbol and limit asked. It either raises or returns the list of candles
  (\<open>historical_data["klines"]\<close>; the empty list also stands for a falsy result).\<close>

type_synonym api_client = "nat \<Rightarrow> string \<Rightarrow> nat \<Rightarrow> exn + kline list"

text \<open>The fields of \<open>PriceTracker\<close>; \<open>api_calls\<close> counts the calls made through
  \<open>self.api_client\<close> so far.\<close>

record price_tracker =
  all_time_highs :: "string \<rightharpoonup> real"
  all_time_lows :: "string \<rightharpoonup> real"
  ninety_day_highs :: "string \<rightharpoonup> real"
  ninety_day_lows :: "string \<rightharpoonup> real"
  price_changes :: "string \<rightharpoonup> entry list"
  api_calls :: nat

section \<open>PriceTracker\<close>

text \<open>The list \<open>price_changes[symbol]\<close>, created empty when the symbol is new.\<close>

definition entries_of :: "price_tracker \<Rightarrow> string \<Rightarrow> entry list" where
  "entries_of t symbol = (case price_changes t symbol of None \<Rightarrow> [] | Some es \<Rightarrow> es)"

text \<open>\<open>update_price_change(symbol, current_price, timeframe)\<close>; \<open>current_time\<close> is
  the value of \<open>int(time.time())\<close> read at entry. Float division by zero raises
  after the list has been stored.\<close>

definition update_price_change ::
  "price_tracker \<Rightarrow> string \<Rightarrow> real \<Rightarrow> int \<Rightarrow> int \<Rightarrow> (exn + real option) \<times> price_tracker" where
  "update_price_change t symbol current_price current_time timeframe =
     (let kept = filter (\<lambda>e. current_time - entry_timestamp e \<le> timeframe) (entries_of t symbol);
          window = kept @ [\<lparr>entry_price = current_price, entry_timestamp = current_time\<rparr>];
          t' = t\<lparr>price_changes := (price_changes t)(symbol \<mapsto> window)\<rparr>
      in if length window > 1
         then (let initial_price = entry_price (hd window)
               in if initial_price = 0 then (Inl ZeroDivisionError, t')
                  else (Inr (Some ((current_price - initial_price) / initial_price * 100)), t'))
         else (Inr None, t'))"

text \<open>\<open>update_all_time_high_low(symbol)\<close>: one fetch with the default limit 1000;
  both maps are written when the history is non-empty, nothing otherwise.\<close>

definition update_all_time_high_low ::
  "api_client \<Rightarrow> price_tracker \<Rightarrow> string \<Rightarrow> (exn + unit) \<times> price_tracker" where
  "update_all_time_high_low api t symbol =
     (let t1 = t\<lparr>api_calls := api_calls t + 1\<rparr>
      in case api (api_calls t) symbol 1000 of
           Inl e \<Rightarrow> (Inl e, t1)
         | Inr [] \<Rightarrow> (Inr (), t1)
         | Inr (k # ks) \<Rightarrow>
             (Inr (), t1\<lparr>all_time_highs := (all_time_highs t1)(symbol \<mapsto> foldl max (high k) (map high ks)),
                         all_time_lows := (all_time_lows t1)(symbol \<mapsto> foldl min (low k) (map low ks))\<rparr>))"

text \<open>\<open>update_ninety_day_high_low(symbol)\<close>: the same over the last 540 candles.\<close>

definition update_ninety_day_high_low ::
  "api_client \<Rightarrow> price_tracker \<Rightarrow> string \<Rightarrow> (exn + unit) \<times> price_tracker" where
  "update_ninety_day_high_low api t symbol =
     (let t1 = t\<lparr>api_calls := api_calls t + 1\<rparr>
      in case api (api_calls t) symbol 540 of
           Inl e \<Rightarrow> (Inl e, t1)
         | Inr [] \<Rightarrow> (Inr (), t1)
         | Inr (k # ks) \<Rightarrow>
             (Inr (), t1\<lparr>ninety_day_highs := (ninety_day_highs t1)(symbol \<mapsto> foldl max (high k) (map high ks)),
                         ninety_day_lows := (ninety_day_lows t1)(symbol \<mapsto> foldl min (low k) (map low ks))\<rparr>))"

text \<open>The four getters: fetch when the symbol is not a key of the map asked for, then
  \<open>dict.get\<close>.\<close>

definition get_all_time_high ::
  "api_client \<Rightarrow> price_tracker \<Rightarrow> string \<Rightarrow> (exn + real option) \<times> price_tracker" where
  "get_all_time_high api t symbol =
     (case all_time_highs t symbol of
        Some v \<Rightarrow> (Inr (Some v), t)
      | None \<Rightarrow> (case update_all_time_high_low api t symbol of
                   (Inl e, t') \<Rightarrow> (Inl e, t')
                 | (Inr u, t') \<Rightarrow> (Inr (all_time_highs t' symbol), t')))"

definition get_all_time_low ::
  "api_client \<Rightarrow> price_tracker \<Rightarrow> string \<Rightarrow> (exn + real option) \<times> price_tracker" where
  "get_all_time_low api t symbol =
     (case all_time_lows t symbol of
        Some v \<Rightarrow> (Inr (Some v), t)
      | None \<Rightarrow> (case update_all_time_high_low api t symbol of
                   (Inl e, t') \<Rightarrow> (Inl e, t')
                 | (Inr u, t') \<Rightarrow> (Inr (all_time_lows t' symbol), t')))"

definition get_ninety_day_high ::
  "api_client \<Rightarrow> price_tracker \<Rightarrow> string \<Rightarrow> (exn + real option) \<times> price_tracker" where
  "get_ninety_day_high api t symbol =
     (case ninety_day_highs t symbol of
        Some v \<Rightarrow> (Inr (Some v), t)
      | None \<Rightarrow> (case update_ninety_day_high_low api t symbol of
                   (Inl e, t') \<Rightarrow> (Inl e, t')
                 | (Inr u, t') \<Rightarrow> (Inr (ninety_day_highs t' symbol), t')))"

definition get_ninety_day_low ::
  "api_client \<Rightarrow> price_tracker \<Rightarrow> string \<Rightarrow> (exn + real option) \<times> price_tracker" where
  "get_ninety_day_low api t symbol =
     (case ninety_day_lows t symbol of
        Some v \<Rightarrow> (Inr (Some v), t)
      | None \<Rightarrow> (case update_ninety_day_high_low api t symbol of
                   (Inl e, t') \<Rightarrow> (Inl e, t')
                 | (Inr u, t') \<Rightarrow> (Inr (ninety_day_lows t' symbol), t')))"

section \<open>Configuration and environment\<close>

text \<open>The values of \<open>Config\<close> that the pipeline reads.\<close>

record config =
  NOTIFICATION_THRESHOLD :: real
  NOTIFICATION_INTERVAL :: int
  MAX_RETRIES :: int
  INITIAL_RETRY_DELAY :: real
  MAX_RETRY_DELAY :: real

text \<open>Everything outside the program, as scripts indexed by the number of calls made so
  far: the historical-data collaborator, the wall clock (\<open>time.time()\<close>,
  \<open>datetime.now().isoformat()\<close> and \<open>datetime.now().strftime('%Y-%m-%d')\<close> of the
  \<open>n\<close>-th reading), and the two mail servers (\<open>True\<close>: the \<open>n\<close>-th delivery
  attempt on that server succeeds, \<open>False\<close>: it raises). \<open>py_float\<close> is Python's
  \<open>float\<close> on strings, \<open>None\<close> where it raises \<open>ValueError\<close>.\<close>

record env =
  api :: api_client
  time_time :: "nat \<Rightarrow> real"
  datetime_now :: "nat \<Rightarrow> string"
  date_today :: "nat \<Rightarrow> string"
  primary_ok :: "nat \<Rightarrow> bool"
  secondary_ok :: "nat \<Rightarrow> bool"
  py_float :: "string \<Rightarrow> real option"

section \<open>EmailNotificationHandler\<close>

text \<open>\<open>last_notification_time\<close> is the rate-limit ledger. The two counters record how
  many times \<open>_send_email\<close> and \<open>_send_via_secondary_server\<close> have been entered,
  \<open>slept\<close> the delays passed to \<open>asyncio.sleep\<close> by \<open>_handle_retry\<close>. The message
  text is handed to the mail server unchanged and decides nothing, so it is left out.\<close>

record email_handler =
  last_notification_time :: "string \<rightharpoonup> real"
  primary_attempts :: nat
  secondary_attempts :: nat
  slept :: "real list"

definition send_email :: "env \<Rightarrow> email_handler \<Rightarrow> (exn + unit) \<times> email_handler" where
  "send_email ev h =
     (if primary_ok ev (primary_attempts h) then Inr () else Inl SendError,
      h\<lparr>primary_attempts := primary_attempts h + 1\<rparr>)"

definition send_via_secondary_server :: "env \<Rightarrow> email_handler \<Rightarrow> (exn + unit) \<times> email_handler" where
  "send_via_secondary_server ev h =
     (if secondary_ok ev (secondary_attempts h) then Inr () else Inl SendError,
      h\<lparr>secondary_attempts := secondary_attempts h + 1\<rparr>)"

definition handle_retry :: "config \<Rightarrow> nat \<Rightarrow> email_handler \<Rightarrow> email_handler" where
  "handle_retry cfg attempt h =
     h\<lparr>slept := slept h @ [min (INITIAL_RETRY_DELAY cfg * 2 ^ attempt) (MAX_RETRY_DELAY cfg)]\<rparr>"

text \<open>The loop \<open>for attempt in range(MAX_RETRIES)\<close> of \<open>send_notification\<close>, entered
  at \<open>attempt\<close>. A primary success writes the ledger and returns. A failure before the
  last attempt sleeps and goes on; a failure on the last attempt calls the secondary
  server inside the \<open>except\<close> block: if that raises, the exception leaves the function,
  otherwise the loop goes on to its end and the function returns.\<close>

function send_loop ::
  "config \<Rightarrow> env \<Rightarrow> string \<Rightarrow> real \<Rightarrow> nat \<Rightarrow> email_handler \<Rightarrow> (exn + unit) \<times> email_handler" where
  "send_loop cfg ev subject current_time attempt h =
     (if int attempt < MAX_RETRIES cfg
      then (case send_email ev h of
              (Inr u, h1) \<Rightarrow>
                (Inr (), h1\<lparr>last_notification_time := (last_notification_time h1)(subject \<mapsto> current_time)\<rparr>)
            | (Inl e, h1) \<Rightarrow>
                if int attempt < MAX_RETRIES cfg - 1
                then send_loop cfg ev subject current_time (attempt + 1) (handle_retry cfg attempt h1)
                else (case send_via_secondary_server ev h1 of
                        (Inl e2, h2) \<Rightarrow> (Inl e2, h2)
                      | (Inr u, h2) \<Rightarrow> send_loop cfg ev subject current_time (attempt + 1) h2))
      else (Inr (), h))"
  by pat_completeness auto
termination
  by (relation "measure (\<lambda>(cfg, ev, subject, current_time, attempt, h). nat (MAX_RETRIES cfg - int attempt))")
     auto

declare send_loop.simps [simp del]

text \<open>\<open>send_notification(subject, body)\<close>; \<open>current_time\<close> is \<open>time.time()\<close> read
  at entry.\<close>

definition send_notification ::
  "config \<Rightarrow> env \<Rightarrow> real \<Rightarrow> string \<Rightarrow> email_handler \<Rightarrow> (exn + unit) \<times> email_handler" where
  "send_notification cfg ev current_time subject h =
     (case last_notification_time h subject of
        Some last_sent \<Rightarrow>
          if current_time - last_sent < real_of_int (NOTIFICATION_INTERVAL cfg) then (Inr (), h)
          else send_loop cfg ev subject current_time 0 h
      | None \<Rightarrow> send_loop cfg ev subject current_time 0 h)"

section \<open>AlertManager\<close>

text \<open>\<open>PriceEvent\<close>; the fields \<open>symbol\<close>, \<open>price\<close> and \<open>time\<close> carry a prefix
  here, so that these words stay free for variables.\<close>

record price_event =
  event_symbol :: string
  event_price :: real
  event_time :: string
  event_type :: string

record alert_manager =
  ath_events :: "price_event list"
  atl_events :: "price_event list"
  ninety_day_ath_events :: "price_event list"
  ninety_day_atl_events :: "price_event list"
  price_movement_events :: "price_event list"

text \<open>\<open>_record_event\<close>: \<open>event_type_mapping.get\<close> yields the bucket of a known kind
  and \<open>None\<close> otherwise; the guard \<open>if event_list:\<close> is Python truthiness, which is
  false for \<open>None\<close> and for an empty list.\<close>

definition record_event :: "alert_manager \<Rightarrow> price_event \<Rightarrow> alert_manager" where
  "record_event am event =
     (if event_type event = ''ATH''
      then (if ath_events am \<noteq> [] then am\<lparr>ath_events := ath_events am @ [event]\<rparr> else am)
      else if event_type event = ''ATL''
      then (if atl_events am \<noteq> [] then am\<lparr>atl_events := atl_events am @ [event]\<rparr> else am)
      else if event_type event = ''90-Day ATH''
      then (if ninety_day_ath_events am \<noteq> []
            then am\<lparr>ninety_day_ath_events := ninety_day_ath_events am @ [event]\<rparr> else am)
      else if event_type event = ''90-Day ATL''
      then (if ninety_day_atl_events am \<noteq> []
            then am\<lparr>ninety_day_atl_events := ninety_day_atl_events am @ [event]\<rparr> else am)
      else if event_type event = ''Price Movement''
      then (if price_movement_events am \<noteq> []
            then am\<lparr>price_movement_events := price_movement_events am @ [event]\<rparr> else am)
      else am)"

definition clear_recorded_events :: "alert_manager \<Rightarrow> alert_manager" where
  "clear_recorded_events am =
     am\<lparr>ath_events := [], atl_events := [], ninety_day_ath_events := [],
        ninety_day_atl_events := [], price_movement_events := []\<rparr>"

text \<open>The objects wired together by \<open>CryptoPriceTracker.__init__\<close>, the
  \<open>last_message_time\<close> of the \<open>WebSocketHandler\<close>, and the number of clock
  readings made so far.\<close>

record system =
  tracker :: price_tracker
  alerts :: alert_manager
  notifier :: email_handler
  last_message_time :: "real option"
  clock_reads :: nat

definition tick_clock :: "system \<Rightarrow> system" where
  "tick_clock s = s\<lparr>clock_reads := clock_reads s + 1\<rparr>"

text \<open>\<open>send_alert(alert_type, symbol, price)\<close>: the notification first; its exception
  is printed and re-raised, and then nothing is recorded.\<close>

definition send_alert ::
  "config \<Rightarrow> env \<Rightarrow> system \<Rightarrow> string \<Rightarrow> string \<Rightarrow> real \<Rightarrow> (exn + unit) \<times> system" where
  "send_alert cfg ev s alert_type symbol price =
     (let subject = alert_type @ '' Alert: '' @ symbol;
          current_time = time_time ev (clock_reads s);
          s1 = tick_clock s
      in case send_notification cfg ev current_time subject (notifier s1) of
           (Inl e, h) \<Rightarrow> (Inl e, s1\<lparr>notifier := h\<rparr>)
         | (Inr u, h) \<Rightarrow>
             (let s2 = s1\<lparr>notifier := h\<rparr>;
                  event = \<lparr>event_symbol = symbol, event_price = price,
                           event_time = datetime_now ev (clock_reads s2), event_type = alert_type\<rparr>;
                  s3 = tick_clock s2
              in (Inr (), s3\<lparr>alerts := record_event (alerts s3) event\<rparr>)))"

text \<open>\<open>send_daily_digest\<close>: the \<open>finally\<close> block clears the buckets on both exits.\<close>

definition send_daily_digest :: "config \<Rightarrow> env \<Rightarrow> system \<Rightarrow> (exn + unit) \<times> system" where
  "send_daily_digest cfg ev s =
     (let subject = ''Daily Digest for '' @ date_today ev (clock_reads s);
          s1 = tick_clock s;
          current_time = time_time ev (clock_reads s1);
          s2 = tick_clock s1
      in case send_notification cfg ev current_time subject (notifier s2) of
           (r, h) \<Rightarrow> (r, s2\<lparr>notifier := h, alerts := clear_recorded_events (alerts s2)\<rparr>))"

section \<open>WebSocketHandler: the coordinator\<close>

text \<open>\<open>current_price > (x or 0)\<close> and \<open>current_price < (x or float("inf"))\<close>, where
  \<open>x\<close> is an optional float: \<open>None\<close> and \<open>0.0\<close> are falsy and give the default.\<close>

definition exceeds_or_zero :: "real \<Rightarrow> real option \<Rightarrow> bool" where
  "exceeds_or_zero current_price x =
     (current_price > (case x of None \<Rightarrow> 0 | Some v \<Rightarrow> if v = 0 then 0 else v))"

definition below_or_inf :: "real \<Rightarrow> real option \<Rightarrow> bool" where
  "below_or_inf current_price x =
     (case x of None \<Rightarrow> True | Some v \<Rightarrow> if v = 0 then True else current_price < v)"

text \<open>\<open>check_and_notify\<close>, first part: the rolling change (with the default timeframe
  of 3600 seconds, as the call passes none) and the threshold alert.\<close>

definition check_price_movement ::
  "config \<Rightarrow> env \<Rightarrow> system \<Rightarrow> string \<Rightarrow> real \<Rightarrow> (exn + unit) \<times> system" where
  "check_price_movement cfg ev s symbol current_price =
     (let current_time = \<lfloor>time_time ev (clock_reads s)\<rfloor>;
          s0 = tick_clock s
      in case update_price_change (tracker s0) symbol current_price current_time 3600 of
           (Inl e, t) \<Rightarrow> (Inl e, s0\<lparr>tracker := t\<rparr>)
         | (Inr None, t) \<Rightarrow> (Inr (), s0\<lparr>tracker := t\<rparr>)
         | (Inr (Some price_change), t) \<Rightarrow>
             if \<bar>price_change\<bar> \<ge> NOTIFICATION_THRESHOLD cfg
             then send_alert cfg ev (s0\<lparr>tracker := t\<rparr>) ''Price Movement'' symbol current_price
             else (Inr (), s0\<lparr>tracker := t\<rparr>))"

text \<open>Second part: the four lookups, in the order of the source.\<close>

definition fetch_extrema ::
  "api_client \<Rightarrow> price_tracker \<Rightarrow> string
     \<Rightarrow> (exn + real option \<times> real option \<times> real option \<times> real option) \<times> price_tracker" where
  "fetch_extrema a t symbol =
     (case get_all_time_high a t symbol of
        (Inl e, t1) \<Rightarrow> (Inl e, t1)
      | (Inr ath, t1) \<Rightarrow>
     (case get_all_time_low a t1 symbol of
        (Inl e, t2) \<Rightarrow> (Inl e, t2)
      | (Inr atl, t2) \<Rightarrow>
     (case get_ninety_day_high a t2 symbol of
        (Inl e, t3) \<Rightarrow> (Inl e, t3)
      | (Inr ninety_day_high, t3) \<Rightarrow>
     (case get_ninety_day_low a t3 symbol of
        (Inl e, t4) \<Rightarrow> (Inl e, t4)
      | (Inr ninety_day_low, t4) \<Rightarrow> (Inr (ath, atl, ninety_day_high, ninety_day_low), t4)))))"

text \<open>Third part: the \<open>if\<close>/\<open>elif\<close> chain; the first branch that matches sends its
  alert.\<close>

definition notify_extremum ::
  "config \<Rightarrow> env \<Rightarrow> system \<Rightarrow> string \<Rightarrow> real
     \<Rightarrow> real option \<times> real option \<times> real option \<times> real option \<Rightarrow> (exn + unit) \<times> system" where
  "notify_extremum cfg ev s symbol current_price x =
     (case x of (ath, atl, ninety_day_high, ninety_day_low) \<Rightarrow>
        if exceeds_or_zero current_price ath
        then send_alert cfg ev s ''ATH'' symbol current_price
        else if below_or_inf current_price atl
        then send_alert cfg ev s ''ATL'' symbol current_price
        else if exceeds_or_zero current_price ninety_day_high
        then send_alert cfg ev s ''90-Day ATH'' symbol current_price
        else if below_or_inf current_price ninety_day_low
        then send_alert cfg ev s ''90-Day ATL'' symbol current_price
        else (Inr (), s))"

definition check_and_notify ::
  "config \<Rightarrow> env \<Rightarrow> system \<Rightarrow> string \<Rightarrow> real \<Rightarrow> (exn + unit) \<times> system" where
  "check_and_notify cfg ev s symbol current_price =
     (case check_price_movement cfg ev s symbol current_price of
        (Inl e, s1) \<Rightarrow> (Inl e, s1)
      | (Inr u, s1) \<Rightarrow>
          (case fetch_extrema (api ev) (tracker s1) symbol of
             (Inl e, t) \<Rightarrow> (Inl e, s1\<lparr>tracker := t\<rparr>)
           | (Inr x, t) \<Rightarrow> notify_extremum cfg ev (s1\<lparr>tracker := t\<rparr>) symbol current_price x))"

section \<open>WebSocketHandler: frames\<close>

text \<open>What \<open>json.loads\<close> returns. An object is its list of members, each key once.\<close>

datatype json =
    JNull
  | JBool bool
  | JNum real
  | JStr string
  | JArr "json list"
  | JObj "(string \<times> json) list"

text \<open>An inbound frame: bytes, or text given by what \<open>json.loads\<close> makes of it
  (\<open>None\<close>: it raises \<open>JSONDecodeError\<close>).\<close>

datatype message = Bytes | Text "json option"

text \<open>\<open>symbol = ticker_data.get("s")\<close> followed by the test
  \<open>symbol in symbols_to_track\<close>: the tracked name when the test holds, \<open>None\<close> when
  it does not (an absent key gives Python's \<open>None\<close>, which is in no set of names);
  lists and dicts are unhashable, and the test raises.\<close>

definition tracked_symbol :: "json option \<Rightarrow> string set \<Rightarrow> exn + string option" where
  "tracked_symbol x symbols_to_track =
     (case x of
        Some (JStr name) \<Rightarrow> Inr (if name \<in> symbols_to_track then Some name else None)
      | Some (JArr xs) \<Rightarrow> Inl TypeError
      | Some (JObj kvs) \<Rightarrow> Inl TypeError
      | _ \<Rightarrow> Inr None)"

text \<open>\<open>float(ticker_data.get("p", 0))\<close>.\<close>

definition float_of :: "env \<Rightarrow> json option \<Rightarrow> exn + real" where
  "float_of ev x =
     (case x of
        None \<Rightarrow> Inr 0
      | Some (JNum r) \<Rightarrow> Inr r
      | Some (JBool b) \<Rightarrow> Inr (if b then 1 else 0)
      | Some (JStr str) \<Rightarrow> (case py_float ev str of None \<Rightarrow> Inl ValueError | Some r \<Rightarrow> Inr r)
      | Some JNull \<Rightarrow> Inl TypeError
      | Some (JArr xs) \<Rightarrow> Inl TypeError
      | Some (JObj kvs) \<Rightarrow> Inl TypeError)"

text \<open>The loop \<open>for ticker_data in data\<close> of \<open>process_message\<close>; \<open>.get\<close> exists
  on dicts only. No exception is caught here.\<close>

fun process_tickers ::
  "config \<Rightarrow> env \<Rightarrow> string set \<Rightarrow> json list \<Rightarrow> system \<Rightarrow> (exn + unit) \<times> system" where
  "process_tickers cfg ev symbols_to_track [] s = (Inr (), s)"
| "process_tickers cfg ev symbols_to_track (ticker_data # rest) s =
     (case ticker_data of
        JObj kvs \<Rightarrow>
          (case tracked_symbol (map_of kvs ''s'') symbols_to_track of
             Inl e \<Rightarrow> (Inl e, s)
           | Inr None \<Rightarrow> process_tickers cfg ev symbols_to_track rest s
           | Inr (Some symbol) \<Rightarrow>
               (case float_of ev (map_of kvs ''p'') of
                  Inl e \<Rightarrow> (Inl e, s)
                | Inr current_price \<Rightarrow>
                    if current_price > 0
                    then (case check_and_notify cfg ev s symbol current_price of
                            (Inl e, s') \<Rightarrow> (Inl e, s')
                          | (Inr u, s') \<Rightarrow> process_tickers cfg ev symbols_to_track rest s')
                    else process_tickers cfg ev symbols_to_track rest s))
      | _ \<Rightarrow> (Inl AttributeError, s))"

definition process_message ::
  "config \<Rightarrow> env \<Rightarrow> string set \<Rightarrow> json \<Rightarrow> system \<Rightarrow> (exn + unit) \<times> system" where
  "process_message cfg ev symbols_to_track data s =
     (case data of
        JArr items \<Rightarrow> process_tickers cfg ev symbols_to_track items s
      | _ \<Rightarrow> (Inr (), s))"

text \<open>A websocket is the frames still to come and the way the stream ends after them:
  \<open>None\<close> when the iteration just stops, otherwise the exception it raises.\<close>

type_synonym websocket = "message list \<times> exn option"

text \<open>The loop \<open>async for message in websocket\<close>. Only \<open>JSONDecodeError\<close> is caught
  inside the loop; any other exception leaves it. The result carries the websocket as
  the loop left it.\<close>

fun receive_loop ::
  "config \<Rightarrow> env \<Rightarrow> string set \<Rightarrow> message list \<Rightarrow> exn option \<Rightarrow> system
     \<Rightarrow> (exn + unit) \<times> websocket \<times> system" where
  "receive_loop cfg ev symbols_to_track [] ending s =
     (case ending of None \<Rightarrow> (Inr (), ([], ending), s) | Some e \<Rightarrow> (Inl e, ([], ending), s))"
| "receive_loop cfg ev symbols_to_track (m # ms) ending s =
     (let s0 = (tick_clock s)\<lparr>last_message_time := Some (time_time ev (clock_reads s))\<rparr>
      in case m of
           Bytes \<Rightarrow> receive_loop cfg ev symbols_to_track ms ending s0
         | Text None \<Rightarrow> receive_loop cfg ev symbols_to_track ms ending s0
         | Text (Some data) \<Rightarrow>
             (case process_message cfg ev symbols_to_track data s0 of
                (Inr u, s1) \<Rightarrow> receive_loop cfg ev symbols_to_track ms ending s1
              | (Inl e, s1) \<Rightarrow>
                  if e = JSONDecodeError then receive_loop cfg ev symbols_to_track ms ending s1
                  else (Inl e, (ms, ending), s1)))"

text \<open>\<open>handle_websocket\<close>: the handlers around the loop. \<open>symbols_to_track\<close> is what
  \<open>initialize_symbols\<close> left; the watchdog task runs beside the loop and shows here
  only through the way the stream ends.\<close>

definition handle_websocket ::
  "config \<Rightarrow> env \<Rightarrow> string set \<Rightarrow> websocket \<Rightarrow> system \<Rightarrow> (exn + unit) \<times> websocket \<times> system" where
  "handle_websocket cfg ev symbols_to_track ws s =
     (case receive_loop cfg ev symbols_to_track (fst ws) (snd ws) s of
        (Inr u, ws', s') \<Rightarrow> (Inr (), ws', s')
      | (Inl e, ws', s') \<Rightarrow>
          if e = ConnectionClosed then (Inr (), ws', s')
          else if e = InvalidStatusCode then (Inl InvalidStatusCode, ws', s')
          else if e = CancelledError then (Inl CancelledError, ws', s')
          else (Inr (), ws', s'))"

section \<open>CryptoPriceTracker.run\<close>

text \<open>One pass through the \<open>while\<close> loop, as the outside world makes it: whether
  \<open>should_exit\<close> is set at the loop test, what \<open>websockets.connect\<close> does (raise, or
  yield a websocket), and whether \<open>should_exit\<close> is set when an \<open>except\<close> block
  tests it.\<close>

record attempt =
  exit_before :: bool
  connection :: "exn + websocket"
  exit_after :: bool

datatype run_status = Exited | StillRunning

text \<open>The \<open>while not self.should_exit.is_set()\<close> loop of \<open>run\<close> over a script of
  passes; \<open>StillRunning\<close> when the script ends with the loop about to connect again.
  The result carries \<open>retry_count\<close> and the waits passed to \<open>asyncio.sleep\<close>.\<close>

fun run_loop ::
  "config \<Rightarrow> env \<Rightarrow> string set \<Rightarrow> attempt list \<Rightarrow> int \<Rightarrow> real list \<Rightarrow> system
     \<Rightarrow> run_status \<times> int \<times> real list \<times> system" where
  "run_loop cfg ev symbols_to_track [] retry_count waits s = (StillRunning, retry_count, waits, s)"
| "run_loop cfg ev symbols_to_track (a # rest) retry_count waits s =
     (if exit_before a then (Exited, retry_count, waits, s)
      else (case (case connection a of
                    Inl e \<Rightarrow> (Inl e, s)
                  | Inr ws \<Rightarrow> (case handle_websocket cfg ev symbols_to_track ws s of
                                (r, ws', s') \<Rightarrow> (r, s'))) of
              (Inr u, s') \<Rightarrow> run_loop cfg ev symbols_to_track rest 0 waits s'
            | (Inl e, s') \<Rightarrow>
                if exit_after a then (Exited, retry_count, waits, s')
                else if e = ConnectionClosed \<or> e = CancelledError
                then run_loop cfg ev symbols_to_track rest retry_count waits s'
                else if retry_count + 1 > MAX_RETRIES cfg
                then (Exited, retry_count + 1, waits, s')
                else run_loop cfg ev symbols_to_track rest (retry_count + 1)
                       (waits @ [min (INITIAL_RETRY_DELAY cfg * 2 ^ nat (retry_count + 1))
                                     (MAX_RETRY_DELAY cfg)]) s'))"

section \<open>The rolling window, in the words of the specification\<close>

text \<open>The samples of a symbol that are still within \<open>timeframe\<close> of \<open>current_time\<close>,
  in arrival order, and the oldest sample retained once the new one has been appended
  (the new sample itself when nothing else is retained).\<close>

definition retained :: "price_tracker \<Rightarrow> string \<Rightarrow> int \<Rightarrow> int \<Rightarrow> entry list" where
  "retained t symbol current_time timeframe =
     filter (\<lambda>e. current_time - entry_timestamp e \<le> timeframe) (entries_of t symbol)"

definition oldest_retained :: "price_tracker \<Rightarrow> string \<Rightarrow> real \<Rightarrow> int \<Rightarrow> int \<Rightarrow> entry" where
  "oldest_retained t symbol current_price current_time timeframe =
     (case retained t symbol current_time timeframe of
        [] \<Rightarrow> \<lparr>entry_price = current_price, entry_timestamp = current_time\<rparr>
      | e # es \<Rightarrow> e)"

section \<open>Concrete configurations\<close>

text \<open>The defaults of \<open>Config\<close>, and the objects as their \<open>__init__\<close> leaves them.\<close>

definition cfg_default :: config where
  "cfg_default = \<lparr>NOTIFICATION_THRESHOLD = 1, NOTIFICATION_INTERVAL = 3600, MAX_RETRIES = 5,
                   INITIAL_RETRY_DELAY = 1, MAX_RETRY_DELAY = 60\<rparr>"

definition fresh_tracker :: price_tracker where
  "fresh_tracker = \<lparr>all_time_highs = Map.empty, all_time_lows = Map.empty,
     ninety_day_highs = Map.empty, ninety_day_lows = Map.empty,
     price_changes = Map.empty, api_calls = 0\<rparr>"

definition fresh_alerts :: alert_manager where
  "fresh_alerts = \<lparr>ath_events = [], atl_events = [], ninety_day_ath_events = [],
     ninety_day_atl_events = [], price_movement_events = []\<rparr>"

definition fresh_handler :: email_handler where
  "fresh_handler = \<lparr>last_notification_time = Map.empty, primary_attempts = 0,
     secondary_attempts = 0, slept = []\<rparr>"

definition fresh_system :: system where
  "fresh_system = \<lparr>tracker = fresh_tracker, alerts = fresh_alerts, notifier = fresh_handler,
     last_message_time = None, clock_reads = 0\<rparr>"

text \<open>A tracker that holds three samples of BTCUSDT, and a system whose four extrema of
  BTCUSDT are cached.\<close>

definition btc_window_tracker :: price_tracker where
  "btc_window_tracker = fresh_tracker\<lparr>price_changes := [''BTCUSDT'' \<mapsto>
     [\<lparr>entry_price = 90, entry_timestamp = 0\<rparr>, \<lparr>entry_price = 100, entry_timestamp = 1000\<rparr>,
      \<lparr>entry_price = 101, entry_timestamp = 2000\<rparr>]]\<rparr>"

definition btc_system :: system where
  "btc_system = fresh_system\<lparr>tracker := fresh_tracker\<lparr>
     all_time_highs := [''BTCUSDT'' \<mapsto> 101], all_time_lows := [''BTCUSDT'' \<mapsto> 50],
     ninety_day_highs := [''BTCUSDT'' \<mapsto> 101], ninety_day_lows := [''BTCUSDT'' \<mapsto> 60]\<rparr>\<rparr>"

text \<open>A system whose buckets already hold an event each for ATH and price movement.\<close>

definition busy_system :: system where
  "busy_system = fresh_system\<lparr>alerts := fresh_alerts\<lparr>
     ath_events := [\<lparr>event_symbol = ''BTCUSDT'', event_price = 102,
                     event_time = ''2024-05-01T12:00:00'', event_type = ''ATH''\<rparr>],
     price_movement_events := [\<lparr>event_symbol = ''ETHUSDT'', event_price = 3000,
                     event_time = ''2024-05-01T12:00:05'', event_type = ''Price Movement''\<rparr>]\<rparr>\<rparr>"

text \<open>A stand-in for Python's \<open>float\<close> on the strings of the examples: it reads a
  non-empty string of decimal digits and rejects every other string (Python accepts
  more: signs, fractions, exponents).\<close>

definition digit_value :: "char \<Rightarrow> nat option" where
  "digit_value c = map_of [(CHR ''0'', 0), (CHR ''1'', 1), (CHR ''2'', 2), (CHR ''3'', 3),
     (CHR ''4'', 4), (CHR ''5'', 5), (CHR ''6'', 6), (CHR ''7'', 7), (CHR ''8'', 8), (CHR ''9'', 9)] c"

fun decimal_value :: "nat \<Rightarrow> string \<Rightarrow> nat option" where
  "decimal_value acc [] = Some acc"
| "decimal_value acc (c # cs) =
     (case digit_value c of None \<Rightarrow> None | Some d \<Rightarrow> decimal_value (10 * acc + d) cs)"

definition decimal_float :: "string \<Rightarrow> real option" where
  "decimal_float str =
     (if str = [] then None
      else (case decimal_value 0 str of None \<Rightarrow> None | Some n \<Rightarrow> Some (real n)))"

text \<open>Environments: the clock advances five seconds per reading from 1000; the
  collaborator has no history; both mail servers accept every message. The variants
  change one script each.\<close>

definition env_ok :: env where
  "env_ok = \<lparr>api = (\<lambda>n symbol limit. Inr []), time_time = (\<lambda>n. 1000 + 5 * real n),
     datetime_now = (\<lambda>n. ''2024-05-01T12:00:00''), date_today = (\<lambda>n. ''2024-05-01''),
     primary_ok = (\<lambda>n. True), secondary_ok = (\<lambda>n. True), py_float = decimal_float\<rparr>"

definition env_retry :: env where
  "env_retry = env_ok\<lparr>primary_ok := (\<lambda>n. 1 \<le> n)\<rparr>"

definition env_failover :: env where
  "env_failover = env_ok\<lparr>primary_ok := (\<lambda>n. False)\<rparr>"

definition env_down :: env where
  "env_down = env_ok\<lparr>primary_ok := (\<lambda>n. False), secondary_ok := (\<lambda>n. False)\<rparr>"

definition env_history :: env where
  "env_history = env_ok\<lparr>api := (\<lambda>n symbol limit.
     Inr [\<lparr>high = 105, low = 95\<rparr>, \<lparr>high = 110, low = 90\<rparr>, \<lparr>high = 100, low = 80\<rparr>])\<rparr>"

text \<open>Two frames for BTCUSDT, the first with a price that is not a number; and a pass
  of the run loop whose connection attempt is rejected at the handshake.\<close>

definition bad_price_frame :: message where
  "bad_price_frame = Text (Some (JArr [JObj [(''s'', JStr ''BTCUSDT''), (''p'', JStr ''abc'')]]))"

definition good_frame :: message where
  "good_frame = Text (Some (JArr [JObj [(''s'', JStr ''BTCUSDT''), (''p'', JStr ''100'')]]))"

definition rejected_attempt :: attempt where
  "rejected_attempt = \<lparr>exit_before = False, connection = Inl InvalidStatusCode, exit_after = False\<rparr>"

section \<open>Facts about the price tracker\<close>

lemma hd_filter_sorted_min:
  "sorted (map f xs) \<Longrightarrow> e \<in> set (filter P xs) \<Longrightarrow> f (hd (filter P xs)) \<le> f e"
  by (induction xs) auto

lemma oldest_retained_min:
  assumes "sorted (map entry_timestamp (entries_of t symbol))"
    and "e \<in> set (retained t symbol now tf)"
  shows "entry_timestamp (oldest_retained t symbol p now tf) \<le> entry_timestamp e"
proof -
  from assms(2) obtain k ks where "retained t symbol now tf = k # ks"
    by (cases "retained t symbol now tf") auto
  then have "oldest_retained t symbol p now tf = hd (retained t symbol now tf)"
    by (simp add: oldest_retained_def)
  then show ?thesis
    using hd_filter_sorted_min [OF assms(1)] assms(2) by (simp add: retained_def)
qed

text \<open>
  Claim C3. When the samples held for a symbol have positive prices and arrived in
  clock order, \<open>update_price_change\<close> stores exactly the samples still within the
  timeframe followed by the new one (the older ones are evicted before anything is
  computed); it returns \<open>None\<close> while that window has fewer than two samples, and
  otherwise \<open>(newest - oldest) / oldest * 100\<close>, where \<open>oldest\<close> is the oldest sample
  retained.
\<close>

theorem update_price_change_window:
  fixes t :: price_tracker and symbol :: string and current_price :: real
    and current_time timeframe :: int
  assumes pos: "\<forall>e \<in> set (entries_of t symbol). 0 < entry_price e"
    and ord: "sorted (map entry_timestamp (entries_of t symbol))"
  shows "(let kept = retained t symbol current_time timeframe;
              window = kept @ [\<lparr>entry_price = current_price, entry_timestamp = current_time\<rparr>];
              oldest = oldest_retained t symbol current_price current_time timeframe;
              r = fst (update_price_change t symbol current_price current_time timeframe);
              t' = snd (update_price_change t symbol current_price current_time timeframe)
          in price_changes t' symbol = Some window
           \<and> (\<forall>e \<in> set (entries_of t symbol).
                  e \<in> set kept \<longleftrightarrow> current_time - entry_timestamp e \<le> timeframe)
           \<and> oldest = hd window
           \<and> (\<forall>e \<in> set kept. entry_timestamp oldest \<le> entry_timestamp e)
           \<and> (length window < 2 \<longrightarrow> r = Inr None)
           \<and> (2 \<le> length window \<longrightarrow>
                  r = Inr (Some ((current_price - entry_price oldest) / entry_price oldest * 100))))"
proof -
  let ?kept = "retained t symbol current_time timeframe"
  have mem: "\<forall>e \<in> set (entries_of t symbol).
               e \<in> set ?kept \<longleftrightarrow> current_time - entry_timestamp e \<le> timeframe"
    by (simp add: retained_def)
  have mn: "\<forall>e \<in> set ?kept.
              entry_timestamp (oldest_retained t symbol current_price current_time timeframe)
                \<le> entry_timestamp e"
    using oldest_retained_min [OF ord] by blast
  show ?thesis
  proof (cases ?kept)
    case Nil
    then show ?thesis using mem
      by (simp add: update_price_change_def Let_def retained_def oldest_retained_def)
  next
    case (Cons k ks)
    then have "k \<in> set (entries_of t symbol)"
      by (metis retained_def filter_is_subset list.set_intros(1) subsetD)
    then have "entry_price k \<noteq> 0" using pos by auto
    with Cons mem mn show ?thesis
      by (simp add: update_price_change_def Let_def retained_def oldest_retained_def)
  qed
qed

text \<open>Witness for C3: three samples at 0, 1000 and 2000 seconds; a tick of 102 at 4000
  seconds evicts the first and reports 2 percent against the sample of 100; the same tick
  at 9000 seconds evicts all three and reports nothing.\<close>

theorem update_price_change_window_witness:
  "map entry_price (entries_of btc_window_tracker ''BTCUSDT'') = [90, 100, 101]
   \<and> sorted (map entry_timestamp (entries_of btc_window_tracker ''BTCUSDT''))
   \<and> fst (update_price_change btc_window_tracker ''BTCUSDT'' 102 4000 3600) = Inr (Some 2)
   \<and> price_changes (snd (update_price_change btc_window_tracker ''BTCUSDT'' 102 4000 3600)) ''BTCUSDT''
       = Some [\<lparr>entry_price = 100, entry_timestamp = 1000\<rparr>, \<lparr>entry_price = 101, entry_timestamp = 2000\<rparr>,
               \<lparr>entry_price = 102, entry_timestamp = 4000\<rparr>]
   \<and> fst (update_price_change btc_window_tracker ''BTCUSDT'' 102 9000 3600) = Inr None"
proof -
  have p: "\<forall>e \<in> set (entries_of btc_window_tracker ''BTCUSDT''). 0 < entry_price e"
    by (simp add: entries_of_def btc_window_tracker_def fresh_tracker_def)
  have o: "sorted (map entry_timestamp (entries_of btc_window_tracker ''BTCUSDT''))"
    by (simp add: entries_of_def btc_window_tracker_def fresh_tracker_def)
  have k: "retained btc_window_tracker ''BTCUSDT'' 4000 3600
             = [\<lparr>entry_price = 100, entry_timestamp = 1000\<rparr>, \<lparr>entry_price = 101, entry_timestamp = 2000\<rparr>]"
    by (simp add: retained_def entries_of_def btc_window_tracker_def fresh_tracker_def)
  have k': "retained btc_window_tracker ''BTCUSDT'' 9000 3600 = []"
    by (simp add: retained_def entries_of_def btc_window_tracker_def fresh_tracker_def)
  have e: "map entry_price (entries_of btc_window_tracker ''BTCUSDT'') = [90, 100, 101]"
    by (simp add: entries_of_def btc_window_tracker_def fresh_tracker_def)
  have late: "fst (update_price_change btc_window_tracker ''BTCUSDT'' 102 9000 3600) = Inr None"
    using update_price_change_window [OF p o, of 9000 3600 102] k'
    by (simp add: Let_def oldest_retained_def)
  show ?thesis
    using e o late update_price_change_window [OF p o, of 4000 3600 102] k
    by (simp add: Let_def oldest_retained_def)
qed

text \<open>The two conditions on the stored samples hold on a new tracker and are kept by every
  tick with a positive price, as long as the clock does not run backwards.\<close>

lemma update_price_change_keeps_window_invariants:
  assumes "\<forall>e \<in> set (entries_of t symbol). 0 < entry_price e"
    and "sorted (map entry_timestamp (entries_of t symbol))"
    and "\<forall>e \<in> set (entries_of t symbol). entry_timestamp e \<le> current_time"
    and "0 < current_price"
  shows "(\<forall>e \<in> set (entries_of (snd (update_price_change t symbol current_price current_time timeframe)) symbol).
            0 < entry_price e \<and> entry_timestamp e \<le> current_time)
       \<and> sorted (map entry_timestamp
            (entries_of (snd (update_price_change t symbol current_price current_time timeframe)) symbol))"
proof -
  let ?kept = "filter (\<lambda>e. current_time - entry_timestamp e \<le> timeframe) (entries_of t symbol)"
  have w: "entries_of (snd (update_price_change t symbol current_price current_time timeframe)) symbol
             = ?kept @ [\<lparr>entry_price = current_price, entry_timestamp = current_time\<rparr>]"
    by (simp add: update_price_change_def Let_def entries_of_def)
  have s: "sorted (map entry_timestamp ?kept)"
    using assms(2) by (simp add: sorted_filter)
  show ?thesis
    unfolding w using assms s by (auto simp: sorted_append)
qed

text \<open>The fold that stands for Python's \<open>max\<close> and \<open>min\<close> over the candles.\<close>

lemma foldl_max_is_Max: "foldl max (x::real) xs = Max (set (x # xs))"
proof (induction xs arbitrary: x)
  case Nil
  show ?case by simp
next
  case (Cons y ys)
  have "foldl max x (y # ys) = Max (set (max x y # ys))"
    using Cons by simp
  also have "\<dots> = Max (set (x # y # ys))"
    by (cases ys) (simp_all add: max.assoc)
  finally show ?case .
qed

lemma foldl_min_is_Min: "foldl min (x::real) xs = Min (set (x # xs))"
proof (induction xs arbitrary: x)
  case Nil
  show ?case by simp
next
  case (Cons y ys)
  have "foldl min x (y # ys) = Min (set (min x y # ys))"
    using Cons by simp
  also have "\<dots> = Min (set (x # y # ys))"
    by (cases ys) (simp_all add: min.assoc)
  finally show ?case .
qed

text \<open>
  Claim C10. For a symbol whose all-time high is not cached, a call of
  \<open>get_all_time_high\<close> that finds non-empty history returns the highest high, writes both
  the all-time high and the all-time low of that symbol with one fetch (a following
  \<open>get_all_time_low\<close> returns the cached low and changes nothing, so it fetches nothing),
  and leaves the all-time extrema of every other symbol, the 90-day extrema and the
  rolling windows as they were.
\<close>

theorem get_all_time_high_populates_both:
  assumes "all_time_highs t symbol = None"
    and "a (api_calls t) symbol 1000 = Inr (k # ks)"
  shows "(let r = fst (get_all_time_high a t symbol); t' = snd (get_all_time_high a t symbol)
          in r = Inr (Some (foldl max (high k) (map high ks)))
           \<and> all_time_highs t' symbol = Some (foldl max (high k) (map high ks))
           \<and> all_time_lows t' symbol = Some (foldl min (low k) (map low ks))
           \<and> api_calls t' = api_calls t + 1
           \<and> get_all_time_low a t' symbol = (Inr (all_time_lows t' symbol), t')
           \<and> (\<forall>other. other \<noteq> symbol \<longrightarrow>
                  all_time_highs t' other = all_time_highs t other
                \<and> all_time_lows t' other = all_time_lows t other)
           \<and> ninety_day_highs t' = ninety_day_highs t
           \<and> ninety_day_lows t' = ninety_day_lows t
           \<and> price_changes t' = price_changes t)"
  using assms
  by (simp add: get_all_time_high_def get_all_time_low_def update_all_time_high_low_def Let_def)

text \<open>Witness for C10: three candles with highs 105, 110, 100 and lows 95, 90, 80.\<close>

theorem get_all_time_high_populates_both_witness:
  "all_time_highs fresh_tracker ''BTCUSDT'' = None
   \<and> api env_history (api_calls fresh_tracker) ''BTCUSDT'' 1000
       = Inr [\<lparr>high = 105, low = 95\<rparr>, \<lparr>high = 110, low = 90\<rparr>, \<lparr>high = 100, low = 80\<rparr>]
   \<and> fst (get_all_time_high (api env_history) fresh_tracker ''BTCUSDT'') = Inr (Some 110)
   \<and> all_time_lows (snd (get_all_time_high (api env_history) fresh_tracker ''BTCUSDT'')) ''BTCUSDT''
       = Some 80
   \<and> api_calls (snd (get_all_time_high (api env_history) fresh_tracker ''BTCUSDT'')) = 1"
proof -
  have n: "all_time_highs fresh_tracker ''BTCUSDT'' = None"
    by (simp add: fresh_tracker_def)
  have h: "api env_history (api_calls fresh_tracker) ''BTCUSDT'' 1000
             = Inr (\<lparr>high = 105, low = 95\<rparr> # [\<lparr>high = 110, low = 90\<rparr>, \<lparr>high = 100, low = 80\<rparr>])"
    by (simp add: env_history_def env_ok_def)
  show ?thesis
    using n h get_all_time_high_populates_both [where a = "api env_history" and t = fresh_tracker, OF n h]
    by (simp add: Let_def fresh_tracker_def)
qed

text \<open>The all-time high and low of a symbol are written together, so the two maps
  always have the same keys.\<close>

lemma update_all_time_high_low_dom:
  "dom (all_time_highs t) = dom (all_time_lows t) \<Longrightarrow>
   dom (all_time_highs (snd (update_all_time_high_low a t symbol)))
     = dom (all_time_lows (snd (update_all_time_high_low a t symbol)))"
  by (simp add: update_all_time_high_low_def Let_def split: sum.splits list.splits)


section \<open>Facts about the notification handler\<close>

text \<open>When the primary server fails \<open>k\<close> times and then accepts, within the attempts
  allowed, the loop returns after \<open>k + 1\<close> primary attempts, never calls the secondary
  server, and writes the ledger.\<close>

lemma send_loop_primary_success:
  assumes "\<forall>i<k. \<not> primary_ok ev (primary_attempts h + i)"
    and "primary_ok ev (primary_attempts h + k)"
    and "int (attempt + k) < MAX_RETRIES cfg"
  shows "\<exists>h'. send_loop cfg ev subject now attempt h = (Inr (), h')
             \<and> primary_attempts h' = primary_attempts h + k + 1
             \<and> secondary_attempts h' = secondary_attempts h
             \<and> last_notification_time h' = (last_notification_time h)(subject \<mapsto> now)"
  using assms
proof (induction k arbitrary: attempt h)
  case 0
  then show ?case
    by (subst send_loop.simps) (simp add: send_email_def)
next
  case (Suc k)
  let ?h1 = "handle_retry cfg attempt (h\<lparr>primary_attempts := primary_attempts h + 1\<rparr>)"
  have fail: "\<not> primary_ok ev (primary_attempts h)"
    using Suc.prems(1) by (metis add.right_neutral zero_less_Suc)
  have a: "\<forall>i<k. \<not> primary_ok ev (primary_attempts ?h1 + i)"
    using Suc.prems(1) by (auto simp: handle_retry_def)
  have b: "primary_ok ev (primary_attempts ?h1 + k)"
    using Suc.prems(2) by (simp add: handle_retry_def)
  have c: "int (attempt + 1 + k) < MAX_RETRIES cfg"
    using Suc.prems(3) by simp
  from Suc.IH [OF a b c] obtain h' where
    h': "send_loop cfg ev subject now (attempt + 1) ?h1 = (Inr (), h')"
        "primary_attempts h' = primary_attempts ?h1 + k + 1"
        "secondary_attempts h' = secondary_attempts ?h1"
        "last_notification_time h' = (last_notification_time ?h1)(subject \<mapsto> now)"
    by blast
  have "send_loop cfg ev subject now attempt h = send_loop cfg ev subject now (attempt + 1) ?h1"
    using fail Suc.prems(3) by (subst send_loop.simps) (simp add: send_email_def)
  with h' show ?case
    by (intro exI [of _ h']) (simp add: handle_retry_def)
qed

text \<open>
  Claim C5, as the code has it. Take a notification that is not itself rate-limited and
  that the primary server accepts on its attempt number \<open>k\<close> (counting from 0, within
  \<open>MAX_RETRIES\<close>), and a second notification with the same subject less than
  \<open>NOTIFICATION_INTERVAL\<close> seconds later. Both calls return normally; the second leaves
  the handler exactly as it was, so it contacts no server; in total \<open>k + 1\<close> primary
  attempts and no secondary attempt are made, which is one attempt when the first
  attempt succeeds.
\<close>

theorem rate_limit_after_primary_delivery:
  assumes fresh: "\<forall>l. last_notification_time h subject = Some l \<longrightarrow>
                       real_of_int (NOTIFICATION_INTERVAL cfg) \<le> t1 - l"
    and fails: "\<forall>i<k. \<not> primary_ok ev (primary_attempts h + i)"
    and ok: "primary_ok ev (primary_attempts h + k)"
    and bound: "int k < MAX_RETRIES cfg"
    and close: "t2 - t1 < real_of_int (NOTIFICATION_INTERVAL cfg)"
  shows "(let h1 = snd (send_notification cfg ev t1 subject h);
              h2 = snd (send_notification cfg ev t2 subject h1)
          in fst (send_notification cfg ev t1 subject h) = Inr ()
           \<and> fst (send_notification cfg ev t2 subject h1) = Inr ()
           \<and> h2 = h1
           \<and> primary_attempts h2 = primary_attempts h + k + 1
           \<and> secondary_attempts h2 = secondary_attempts h)"
proof -
  have first: "send_notification cfg ev t1 subject h = send_loop cfg ev subject t1 0 h"
    using fresh by (auto simp: send_notification_def split: option.splits)
  from send_loop_primary_success [of k ev h 0 cfg subject t1] fails ok bound
  obtain h' where h': "send_loop cfg ev subject t1 0 h = (Inr (), h')"
        "primary_attempts h' = primary_attempts h + k + 1"
        "secondary_attempts h' = secondary_attempts h"
        "last_notification_time h' = (last_notification_time h)(subject \<mapsto> t1)"
    by auto
  have second: "send_notification cfg ev t2 subject h' = (Inr (), h')"
    using h'(4) close by (simp add: send_notification_def)
  show ?thesis
    using first h' second by (simp add: Let_def)
qed

text \<open>Witness for C5: the first attempt succeeds (\<open>k = 0\<close>); two notifications ten
  seconds apart make one primary attempt in total.\<close>

theorem rate_limit_after_primary_delivery_witness:
  "last_notification_time fresh_handler ''ATH Alert: ETHUSDT'' = None
   \<and> primary_ok env_ok (primary_attempts fresh_handler + 0)
   \<and> int 0 < MAX_RETRIES cfg_default
   \<and> (10::real) - 0 < real_of_int (NOTIFICATION_INTERVAL cfg_default)
   \<and> fst (send_notification cfg_default env_ok 0 ''ATH Alert: ETHUSDT'' fresh_handler) = Inr ()
   \<and> send_notification cfg_default env_ok 10 ''ATH Alert: ETHUSDT''
       (snd (send_notification cfg_default env_ok 0 ''ATH Alert: ETHUSDT'' fresh_handler))
       = (Inr (), snd (send_notification cfg_default env_ok 0 ''ATH Alert: ETHUSDT'' fresh_handler))
   \<and> primary_attempts (snd (send_notification cfg_default env_ok 10 ''ATH Alert: ETHUSDT''
       (snd (send_notification cfg_default env_ok 0 ''ATH Alert: ETHUSDT'' fresh_handler)))) = 1"
proof -
  have a: "\<forall>l. last_notification_time fresh_handler ''ATH Alert: ETHUSDT'' = Some l \<longrightarrow>
             real_of_int (NOTIFICATION_INTERVAL cfg_default) \<le> 0 - l"
    by (simp add: fresh_handler_def)
  have b: "\<forall>i<(0::nat). \<not> primary_ok env_ok (primary_attempts fresh_handler + i)"
    by simp
  have c: "primary_ok env_ok (primary_attempts fresh_handler + 0)"
    by (simp add: env_ok_def)
  have d: "int 0 < MAX_RETRIES cfg_default"
    by (simp add: cfg_default_def)
  have e: "(10::real) - 0 < real_of_int (NOTIFICATION_INTERVAL cfg_default)"
    by (simp add: cfg_default_def)
  have n: "last_notification_time fresh_handler ''ATH Alert: ETHUSDT'' = None"
    by (simp add: fresh_handler_def)
  note r = rate_limit_after_primary_delivery [OF a b c d e, unfolded Let_def]
  from r have r1: "fst (send_notification cfg_default env_ok 0 ''ATH Alert: ETHUSDT'' fresh_handler) = Inr ()"
    by (rule conjunct1)
  from r have r2: "fst (send_notification cfg_default env_ok 10 ''ATH Alert: ETHUSDT''
          (snd (send_notification cfg_default env_ok 0 ''ATH Alert: ETHUSDT'' fresh_handler))) = Inr ()"
    by (elim conjE)
  from r have r3: "snd (send_notification cfg_default env_ok 10 ''ATH Alert: ETHUSDT''
          (snd (send_notification cfg_default env_ok 0 ''ATH Alert: ETHUSDT'' fresh_handler)))
          = snd (send_notification cfg_default env_ok 0 ''ATH Alert: ETHUSDT'' fresh_handler)"
    by (elim conjE)
  from r have r4: "primary_attempts (snd (send_notification cfg_default env_ok 10 ''ATH Alert: ETHUSDT''
          (snd (send_notification cfg_default env_ok 0 ''ATH Alert: ETHUSDT'' fresh_handler))))
          = primary_attempts fresh_handler + 0 + 1"
    by (elim conjE)
  have r5: "send_notification cfg_default env_ok 10 ''ATH Alert: ETHUSDT''
       (snd (send_notification cfg_default env_ok 0 ''ATH Alert: ETHUSDT'' fresh_handler))
       = (Inr (), snd (send_notification cfg_default env_ok 0 ''ATH Alert: ETHUSDT'' fresh_handler))"
    using r2 r3 by (simp add: prod_eq_iff)
  have r6: "primary_attempts (snd (send_notification cfg_default env_ok 10 ''ATH Alert: ETHUSDT''
          (snd (send_notification cfg_default env_ok 0 ''ATH Alert: ETHUSDT'' fresh_handler)))) = 1"
    using r4 by (simp add: fresh_handler_def)
  show ?thesis
    using n c d e r1 r5 r6 by (intro conjI)
qed

text \<open>Counterexample to C5 as stated: the first notification is delivered, on the second
  primary attempt; the second notification, ten seconds later, is suppressed; two
  transport attempts have been made, not one.\<close>

theorem retried_delivery_takes_two_attempts:
  "send_notification cfg_default env_retry 0 ''ATH Alert: ETHUSDT'' fresh_handler
     = (Inr (), \<lparr>last_notification_time = [''ATH Alert: ETHUSDT'' \<mapsto> 0], primary_attempts = 2,
                 secondary_attempts = 0, slept = [1]\<rparr>)
   \<and> send_notification cfg_default env_retry 10 ''ATH Alert: ETHUSDT''
       \<lparr>last_notification_time = [''ATH Alert: ETHUSDT'' \<mapsto> 0], primary_attempts = 2,
        secondary_attempts = 0, slept = [1]\<rparr>
     = (Inr (), \<lparr>last_notification_time = [''ATH Alert: ETHUSDT'' \<mapsto> 0], primary_attempts = 2,
                 secondary_attempts = 0, slept = [1]\<rparr>)"
  by (simp add: send_notification_def send_loop.simps send_email_def handle_retry_def
      cfg_default_def env_retry_def env_ok_def fresh_handler_def)

text \<open>
  Claim C7, at the input where the code departs from it: with the default configuration
  the primary server refuses all five attempts and the secondary server accepts the
  message. \<open>send_notification\<close> returns normally, and the ledger has no entry for the
  subject; a second notification ten seconds later is therefore not suppressed and goes
  through both servers again.
\<close>

theorem failover_delivery_not_in_ledger:
  "send_notification cfg_default env_failover 0 ''ATH Alert: ETHUSDT'' fresh_handler
     = (Inr (), \<lparr>last_notification_time = Map.empty, primary_attempts = 5,
                 secondary_attempts = 1, slept = [1, 2, 4, 8]\<rparr>)
   \<and> send_notification cfg_default env_failover 10 ''ATH Alert: ETHUSDT''
       \<lparr>last_notification_time = Map.empty, primary_attempts = 5,
        secondary_attempts = 1, slept = [1, 2, 4, 8]\<rparr>
     = (Inr (), \<lparr>last_notification_time = Map.empty, primary_attempts = 10,
                 secondary_attempts = 2, slept = [1, 2, 4, 8, 1, 2, 4, 8]\<rparr>)"
  by (simp add: send_notification_def send_loop.simps send_email_def handle_retry_def
      send_via_secondary_server_def cfg_default_def env_failover_def env_ok_def fresh_handler_def)

text \<open>The sibling path: a delivery by the primary server does write the ledger.\<close>

lemma primary_delivery_updates_ledger:
  assumes "last_notification_time h subject = None"
    and "primary_ok ev (primary_attempts h)"
    and "0 < MAX_RETRIES cfg"
  shows "last_notification_time (snd (send_notification cfg ev now subject h)) subject = Some now"
proof -
  from send_loop_primary_success [of 0 ev h 0 cfg subject now] assms
  obtain h' where "send_loop cfg ev subject now 0 h = (Inr (), h')"
    "last_notification_time h' = (last_notification_time h)(subject \<mapsto> now)"
    by auto
  then show ?thesis
    using assms(1) by (simp add: send_notification_def)
qed

section \<open>Facts about the alert manager\<close>

text \<open>
  Claim C2, at the input where the code departs from it: on a new alert manager an ATH
  alert for ETHUSDT is sent and returns normally, and a second one ten seconds later is
  suppressed by the rate limit and returns normally; after each of them the ATH bucket
  is still empty, because \<open>_record_event\<close> appends to a bucket only when the bucket is
  already non-empty.
\<close>

theorem first_event_not_recorded:
  "fst (send_alert cfg_default env_ok fresh_system ''ATH'' ''ETHUSDT'' 3000) = Inr ()
   \<and> ath_events (alerts (snd (send_alert cfg_default env_ok fresh_system ''ATH'' ''ETHUSDT'' 3000))) = []
   \<and> fst (send_alert cfg_default env_ok
            (snd (send_alert cfg_default env_ok fresh_system ''ATH'' ''ETHUSDT'' 3000))
            ''ATH'' ''ETHUSDT'' 3001) = Inr ()
   \<and> ath_events (alerts (snd (send_alert cfg_default env_ok
            (snd (send_alert cfg_default env_ok fresh_system ''ATH'' ''ETHUSDT'' 3000))
            ''ATH'' ''ETHUSDT'' 3001))) = []
   \<and> primary_attempts (notifier (snd (send_alert cfg_default env_ok
            (snd (send_alert cfg_default env_ok fresh_system ''ATH'' ''ETHUSDT'' 3000))
            ''ATH'' ''ETHUSDT'' 3001))) = 1"
  by (simp add: send_alert_def send_notification_def send_loop.simps send_email_def
      record_event_def tick_clock_def Let_def cfg_default_def env_ok_def fresh_system_def
      fresh_alerts_def fresh_handler_def)

text \<open>No alert ever fills an empty set of buckets; an event of a kind whose bucket is
  non-empty is appended, also when the notification was suppressed.\<close>

lemma record_event_empty: "record_event fresh_alerts event = fresh_alerts"
  by (simp add: record_event_def fresh_alerts_def)

lemma empty_buckets_stay_empty:
  "alerts s = fresh_alerts \<Longrightarrow> alerts (snd (send_alert cfg ev s kind symbol p)) = fresh_alerts"
  by (simp add: send_alert_def Let_def tick_clock_def record_event_empty split: prod.splits sum.splits)

lemma record_event_nonempty_ath:
  "event_type event = ''ATH'' \<Longrightarrow> ath_events am \<noteq> [] \<Longrightarrow>
   ath_events (record_event am event) = ath_events am @ [event]"
  by (simp add: record_event_def)

text \<open>
  Claim C6. Whatever the configuration, the environment and the state, and whether the
  notification is sent, suppressed or raises, \<open>send_daily_digest\<close> leaves all five
  buckets empty; the price tracker is not touched.
\<close>

theorem digest_clears_buckets:
  "alerts (snd (send_daily_digest cfg ev s))
     = \<lparr>ath_events = [], atl_events = [], ninety_day_ath_events = [],
        ninety_day_atl_events = [], price_movement_events = []\<rparr>
   \<and> tracker (snd (send_daily_digest cfg ev s)) = tracker s"
  by (simp add: send_daily_digest_def Let_def clear_recorded_events_def tick_clock_def
      split: prod.splits)

text \<open>Witness for C6: with both mail servers down the digest raises, and the two
  buckets that held an event are empty afterwards.\<close>

theorem digest_clears_buckets_witness:
  "ath_events (alerts busy_system) \<noteq> []
   \<and> fst (send_daily_digest cfg_default env_down busy_system) = Inl SendError
   \<and> alerts (snd (send_daily_digest cfg_default env_down busy_system)) = fresh_alerts"
proof -
  have "fst (send_daily_digest cfg_default env_down busy_system) = Inl SendError"
    by (simp add: send_daily_digest_def send_notification_def send_loop.simps send_email_def
        send_via_secondary_server_def handle_retry_def tick_clock_def Let_def cfg_default_def
        env_down_def env_ok_def busy_system_def fresh_system_def fresh_handler_def
        split: prod.splits)
  then show ?thesis
    using digest_clears_buckets [of cfg_default env_down busy_system]
    by (simp add: fresh_alerts_def busy_system_def)
qed

lemma digest_returns_and_clears:
  "fst (send_daily_digest cfg_default env_ok busy_system) = Inr ()
   \<and> alerts (snd (send_daily_digest cfg_default env_ok busy_system)) = fresh_alerts"
  by (simp add: send_daily_digest_def send_notification_def send_loop.simps send_email_def
      clear_recorded_events_def tick_clock_def Let_def cfg_default_def env_ok_def busy_system_def
      fresh_system_def fresh_handler_def fresh_alerts_def split: prod.splits)


section \<open>Facts about the coordinator\<close>

lemma send_alert_tracker: "tracker (snd (send_alert cfg ev s kind symbol p)) = tracker s"
  by (simp add: send_alert_def Let_def tick_clock_def split: prod.splits sum.splits)

lemma update_price_change_frame:
  "all_time_highs (snd (update_price_change t symbol p now tf)) = all_time_highs t
   \<and> all_time_lows (snd (update_price_change t symbol p now tf)) = all_time_lows t
   \<and> ninety_day_highs (snd (update_price_change t symbol p now tf)) = ninety_day_highs t
   \<and> ninety_day_lows (snd (update_price_change t symbol p now tf)) = ninety_day_lows t
   \<and> api_calls (snd (update_price_change t symbol p now tf)) = api_calls t"
  by (simp add: update_price_change_def Let_def)

lemma check_price_movement_frame:
  "all_time_highs (tracker (snd (check_price_movement cfg ev s symbol p))) = all_time_highs (tracker s)
   \<and> all_time_lows (tracker (snd (check_price_movement cfg ev s symbol p))) = all_time_lows (tracker s)
   \<and> ninety_day_highs (tracker (snd (check_price_movement cfg ev s symbol p))) = ninety_day_highs (tracker s)
   \<and> ninety_day_lows (tracker (snd (check_price_movement cfg ev s symbol p))) = ninety_day_lows (tracker s)
   \<and> api_calls (tracker (snd (check_price_movement cfg ev s symbol p))) = api_calls (tracker s)"
proof -
  obtain r t where u:
    "update_price_change (tracker (tick_clock s)) symbol p \<lfloor>time_time ev (clock_reads s)\<rfloor> 3600 = (r, t)"
    by (cases "update_price_change (tracker (tick_clock s)) symbol p \<lfloor>time_time ev (clock_reads s)\<rfloor> 3600")
  have t: "all_time_highs t = all_time_highs (tracker s) \<and> all_time_lows t = all_time_lows (tracker s)
    \<and> ninety_day_highs t = ninety_day_highs (tracker s) \<and> ninety_day_lows t = ninety_day_lows (tracker s)
    \<and> api_calls t = api_calls (tracker s)"
    using update_price_change_frame
      [of "tracker (tick_clock s)" symbol p "\<lfloor>time_time ev (clock_reads s)\<rfloor>" 3600] u
    by (simp add: tick_clock_def)
  show ?thesis
    using u t
    by (simp add: check_price_movement_def Let_def send_alert_tracker split: sum.splits option.splits)
qed

lemma fetch_extrema_cached:
  assumes "all_time_highs t symbol = Some h" and "all_time_lows t symbol = Some l"
  shows "all_time_highs (snd (fetch_extrema a t symbol)) = all_time_highs t
       \<and> all_time_lows (snd (fetch_extrema a t symbol)) = all_time_lows t
       \<and> (\<forall>x. fst (fetch_extrema a t symbol) = Inr x \<longrightarrow> fst x = Some h \<and> fst (snd x) = Some l)"
  using assms
  by (auto simp: fetch_extrema_def get_all_time_high_def get_all_time_low_def
        get_ninety_day_high_def get_ninety_day_low_def update_ninety_day_high_low_def Let_def
      split: sum.splits option.splits list.splits prod.splits)

lemma notify_extremum_tracker: "tracker (snd (notify_extremum cfg ev s symbol p x)) = tracker s"
  by (cases x) (simp add: notify_extremum_def send_alert_tracker)

text \<open>Every tick keeps the all-time highs and lows on the same keys, as they are on a new
  tracker.\<close>

lemma update_ninety_day_frame:
  "all_time_highs (snd (update_ninety_day_high_low a t symbol)) = all_time_highs t
   \<and> all_time_lows (snd (update_ninety_day_high_low a t symbol)) = all_time_lows t"
  by (simp add: update_ninety_day_high_low_def Let_def split: sum.splits list.splits)

lemma get_all_time_high_dom:
  assumes "dom (all_time_highs t) = dom (all_time_lows t)"
  shows "dom (all_time_highs (snd (get_all_time_high a t symbol)))
           = dom (all_time_lows (snd (get_all_time_high a t symbol)))"
proof (cases "all_time_highs t symbol")
  case (Some v)
  then show ?thesis using assms by (simp add: get_all_time_high_def)
next
  case None
  obtain r t' where u: "update_all_time_high_low a t symbol = (r, t')"
    by (cases "update_all_time_high_low a t symbol")
  have "dom (all_time_highs t') = dom (all_time_lows t')"
    using update_all_time_high_low_dom [OF assms, of a symbol] u by simp
  then show ?thesis
    using None u by (cases r) (simp_all add: get_all_time_high_def)
qed

lemma get_all_time_low_dom:
  assumes "dom (all_time_highs t) = dom (all_time_lows t)"
  shows "dom (all_time_highs (snd (get_all_time_low a t symbol)))
           = dom (all_time_lows (snd (get_all_time_low a t symbol)))"
proof (cases "all_time_lows t symbol")
  case (Some v)
  then show ?thesis using assms by (simp add: get_all_time_low_def)
next
  case None
  obtain r t' where u: "update_all_time_high_low a t symbol = (r, t')"
    by (cases "update_all_time_high_low a t symbol")
  have "dom (all_time_highs t') = dom (all_time_lows t')"
    using update_all_time_high_low_dom [OF assms, of a symbol] u by simp
  then show ?thesis
    using None u by (cases r) (simp_all add: get_all_time_low_def)
qed

lemma get_ninety_day_high_frame:
  "all_time_highs (snd (get_ninety_day_high a t symbol)) = all_time_highs t
   \<and> all_time_lows (snd (get_ninety_day_high a t symbol)) = all_time_lows t"
proof (cases "ninety_day_highs t symbol")
  case (Some v)
  then show ?thesis by (simp add: get_ninety_day_high_def)
next
  case None
  obtain r t' where u: "update_ninety_day_high_low a t symbol = (r, t')"
    by (cases "update_ninety_day_high_low a t symbol")
  have "all_time_highs t' = all_time_highs t \<and> all_time_lows t' = all_time_lows t"
    using update_ninety_day_frame [of a t symbol] u by simp
  then show ?thesis
    using None u by (cases r) (simp_all add: get_ninety_day_high_def)
qed

lemma get_ninety_day_low_frame:
  "all_time_highs (snd (get_ninety_day_low a t symbol)) = all_time_highs t
   \<and> all_time_lows (snd (get_ninety_day_low a t symbol)) = all_time_lows t"
proof (cases "ninety_day_lows t symbol")
  case (Some v)
  then show ?thesis by (simp add: get_ninety_day_low_def)
next
  case None
  obtain r t' where u: "update_ninety_day_high_low a t symbol = (r, t')"
    by (cases "update_ninety_day_high_low a t symbol")
  have "all_time_highs t' = all_time_highs t \<and> all_time_lows t' = all_time_lows t"
    using update_ninety_day_frame [of a t symbol] u by simp
  then show ?thesis
    using None u by (cases r) (simp_all add: get_ninety_day_low_def)
qed

lemma fetch_extrema_dom:
  assumes "dom (all_time_highs t) = dom (all_time_lows t)"
  shows "dom (all_time_highs (snd (fetch_extrema a t symbol)))
           = dom (all_time_lows (snd (fetch_extrema a t symbol)))"
proof -
  obtain r1 t1 where g1: "get_all_time_high a t symbol = (r1, t1)"
    by (cases "get_all_time_high a t symbol")
  obtain r2 t2 where g2: "get_all_time_low a t1 symbol = (r2, t2)"
    by (cases "get_all_time_low a t1 symbol")
  obtain r3 t3 where g3: "get_ninety_day_high a t2 symbol = (r3, t3)"
    by (cases "get_ninety_day_high a t2 symbol")
  obtain r4 t4 where g4: "get_ninety_day_low a t3 symbol = (r4, t4)"
    by (cases "get_ninety_day_low a t3 symbol")
  have d1: "dom (all_time_highs t1) = dom (all_time_lows t1)"
    using get_all_time_high_dom [OF assms, of a symbol] g1 by simp
  have d2: "dom (all_time_highs t2) = dom (all_time_lows t2)"
    using get_all_time_low_dom [OF d1, of a symbol] g2 by simp
  have d3: "dom (all_time_highs t3) = dom (all_time_lows t3)"
    using get_ninety_day_high_frame [of a t2 symbol] g3 d2 by simp
  have d4: "dom (all_time_highs t4) = dom (all_time_lows t4)"
    using get_ninety_day_low_frame [of a t3 symbol] g4 d3 by simp
  show ?thesis
    using g1 g2 g3 g4 d1 d2 d3 d4
    by (simp add: fetch_extrema_def split: sum.splits)
qed

lemma check_and_notify_dom:
  assumes "dom (all_time_highs (tracker s)) = dom (all_time_lows (tracker s))"
  shows "dom (all_time_highs (tracker (snd (check_and_notify cfg ev s symbol p))))
           = dom (all_time_lows (tracker (snd (check_and_notify cfg ev s symbol p))))"
proof -
  obtain r1 s1 where c: "check_price_movement cfg ev s symbol p = (r1, s1)"
    by (cases "check_price_movement cfg ev s symbol p")
  have d1: "dom (all_time_highs (tracker s1)) = dom (all_time_lows (tracker s1))"
    using check_price_movement_frame [of cfg ev s symbol p] c assms by simp
  obtain r2 t2 where f: "fetch_extrema (api ev) (tracker s1) symbol = (r2, t2)"
    by (cases "fetch_extrema (api ev) (tracker s1) symbol")
  have d2: "dom (all_time_highs t2) = dom (all_time_lows t2)"
    using fetch_extrema_dom [OF d1, of "api ev" symbol] f by simp
  show ?thesis
    using c f d1 d2
    by (simp add: check_and_notify_def notify_extremum_tracker split: sum.splits)
qed

text \<open>
  Claim C1, as the code has it. For a symbol whose all-time high and low are cached
  (the two are always written together), processing a live tick never changes the cached
  all-time high, whatever the price: the coordinator only reads it. A tick whose price is
  strictly greater than the cached high, and that reaches the extremum check (the
  threshold alert and the lookups did not raise), is handed to \<open>send_alert\<close> as an ATH
  event. As the cache is the same after the tick, this holds again for the next tick:
  the event is raised on every tick above the cached high, not once per crossing.
\<close>

theorem cached_high_survives_tick:
  assumes h: "all_time_highs (tracker s) symbol = Some h"
    and l: "all_time_lows (tracker s) symbol = Some l"
  shows "(let pm = check_price_movement cfg ev s symbol p;
              fx = fetch_extrema (api ev) (tracker (snd pm)) symbol;
              out = check_and_notify cfg ev s symbol p
          in all_time_highs (tracker (snd out)) symbol = Some h
           \<and> all_time_lows (tracker (snd out)) symbol = Some l
           \<and> (h < p \<and> fst pm = Inr () \<and> \<not> isl (fst fx) \<longrightarrow>
                out = send_alert cfg ev ((snd pm)\<lparr>tracker := snd fx\<rparr>) ''ATH'' symbol p))"
proof -
  obtain r1 s1 where c: "check_price_movement cfg ev s symbol p = (r1, s1)"
    by (cases "check_price_movement cfg ev s symbol p")
  have f1: "all_time_highs (tracker s1) symbol = Some h" "all_time_lows (tracker s1) symbol = Some l"
    using check_price_movement_frame [of cfg ev s symbol p] c h l by simp_all
  obtain r2 t2 where f: "fetch_extrema (api ev) (tracker s1) symbol = (r2, t2)"
    by (cases "fetch_extrema (api ev) (tracker s1) symbol")
  have f2: "all_time_highs t2 symbol = Some h" "all_time_lows t2 symbol = Some l"
    and f3: "\<forall>x. r2 = Inr x \<longrightarrow> fst x = Some h \<and> fst (snd x) = Some l"
    using fetch_extrema_cached [OF f1, of "api ev"] f f1 by simp_all
  have post: "all_time_highs (tracker (snd (check_and_notify cfg ev s symbol p))) symbol = Some h
       \<and> all_time_lows (tracker (snd (check_and_notify cfg ev s symbol p))) symbol = Some l"
    using c f f1 f2
    by (simp add: check_and_notify_def notify_extremum_tracker split: sum.splits)
  have ath: "check_and_notify cfg ev s symbol p = send_alert cfg ev (s1\<lparr>tracker := t2\<rparr>) ''ATH'' symbol p"
    if hp: "h < p" and ok1: "r1 = Inr ()" and ok2: "\<not> isl r2"
  proof -
    from ok2 obtain x where x: "r2 = Inr x" by (cases r2) auto
    with f3 have "fst x = Some h" by simp
    then obtain atl nh nl where "x = (Some h, atl, nh, nl)" by (cases x) auto
    with c f x ok1 hp show ?thesis
      by (simp add: check_and_notify_def notify_extremum_def exceeds_or_zero_def)
  qed
  show ?thesis
    using post ath c f by (simp add: Let_def)
qed

text \<open>Witness for C1: BTCUSDT with a cached all-time high of 101 and a tick at 102.\<close>

theorem cached_high_survives_tick_witness:
  "all_time_highs (tracker btc_system) ''BTCUSDT'' = Some 101
   \<and> all_time_lows (tracker btc_system) ''BTCUSDT'' = Some 50
   \<and> all_time_highs (tracker (snd (check_and_notify cfg_default env_ok btc_system ''BTCUSDT'' 102)))
        ''BTCUSDT'' = Some 101
   \<and> check_and_notify cfg_default env_ok btc_system ''BTCUSDT'' 102
       = send_alert cfg_default env_ok
           ((snd (check_price_movement cfg_default env_ok btc_system ''BTCUSDT'' 102))
              \<lparr>tracker := snd (fetch_extrema (api env_ok)
                  (tracker (snd (check_price_movement cfg_default env_ok btc_system ''BTCUSDT'' 102)))
                  ''BTCUSDT'')\<rparr>)
           ''ATH'' ''BTCUSDT'' 102"
proof -
  have h: "all_time_highs (tracker btc_system) ''BTCUSDT'' = Some 101"
    by (simp add: btc_system_def)
  have l: "all_time_lows (tracker btc_system) ''BTCUSDT'' = Some 50"
    by (simp add: btc_system_def)
  have pm: "fst (check_price_movement cfg_default env_ok btc_system ''BTCUSDT'' 102) = Inr ()"
    by (simp add: check_price_movement_def update_price_change_def entries_of_def tick_clock_def
        Let_def btc_system_def fresh_system_def fresh_tracker_def)
  have t: "tracker (snd (check_price_movement cfg_default env_ok btc_system ''BTCUSDT'' 102))
             = (tracker btc_system)\<lparr>price_changes :=
                  [''BTCUSDT'' \<mapsto> [\<lparr>entry_price = 102, entry_timestamp = 1000\<rparr>]]\<rparr>"
    by (simp add: check_price_movement_def update_price_change_def entries_of_def tick_clock_def
        Let_def btc_system_def fresh_system_def fresh_tracker_def env_ok_def)
  have fx: "\<not> isl (fst (fetch_extrema (api env_ok)
              (tracker (snd (check_price_movement cfg_default env_ok btc_system ''BTCUSDT'' 102)))
              ''BTCUSDT''))"
    unfolding t
    by (simp add: fetch_extrema_def get_all_time_high_def get_all_time_low_def
        get_ninety_day_high_def get_ninety_day_low_def btc_system_def fresh_system_def
        fresh_tracker_def)
  note r = cached_high_survives_tick [OF h l, of cfg_default env_ok 102, unfolded Let_def]
  from r have kept: "all_time_highs (tracker (snd (check_and_notify cfg_default env_ok btc_system
      ''BTCUSDT'' 102))) ''BTCUSDT'' = Some 101"
    by (rule conjunct1)
  have above: "(101::real) < 102"
    by simp
  from r above pm fx have ath: "check_and_notify cfg_default env_ok btc_system ''BTCUSDT'' 102
       = send_alert cfg_default env_ok
           ((snd (check_price_movement cfg_default env_ok btc_system ''BTCUSDT'' 102))
              \<lparr>tracker := snd (fetch_extrema (api env_ok)
                  (tracker (snd (check_price_movement cfg_default env_ok btc_system ''BTCUSDT'' 102)))
                  ''BTCUSDT'')\<rparr>)
           ''ATH'' ''BTCUSDT'' 102"
    by blast
  show ?thesis
    using h l kept ath by (intro conjI)
qed

text \<open>Counterexample to C1 as stated: the tick at 102 is above the cached all-time high
  of 101 and its ATH notification is delivered (the ledger holds its subject), but the
  cached high is still 101 afterwards.\<close>

theorem cached_high_not_raised_to_price:
  "fst (check_and_notify cfg_default env_ok btc_system ''BTCUSDT'' 102) = Inr ()
   \<and> last_notification_time (notifier (snd (check_and_notify cfg_default env_ok btc_system ''BTCUSDT'' 102)))
        ''ATH Alert: BTCUSDT'' = Some 1005
   \<and> all_time_highs (tracker (snd (check_and_notify cfg_default env_ok btc_system ''BTCUSDT'' 102)))
        ''BTCUSDT'' = Some 101"
  by (simp add: check_and_notify_def check_price_movement_def fetch_extrema_def notify_extremum_def
      update_price_change_def entries_of_def exceeds_or_zero_def below_or_inf_def
      get_all_time_high_def get_all_time_low_def get_ninety_day_high_def get_ninety_day_low_def
      send_alert_def send_notification_def send_loop.simps send_email_def record_event_def
      tick_clock_def Let_def cfg_default_def env_ok_def btc_system_def fresh_system_def
      fresh_tracker_def fresh_alerts_def fresh_handler_def)

text \<open>A second tick at the same price, on the state the first one left: it goes to
  \<open>send_alert\<close> as an ATH event again.\<close>

lemma second_tick_above_high_alerts_again:
  "fst (check_and_notify cfg_default env_ok
          (snd (check_and_notify cfg_default env_ok btc_system ''BTCUSDT'' 102)) ''BTCUSDT'' 102) = Inr ()
   \<and> check_and_notify cfg_default env_ok
          (snd (check_and_notify cfg_default env_ok btc_system ''BTCUSDT'' 102)) ''BTCUSDT'' 102
     = send_alert cfg_default env_ok
          (snd (check_price_movement cfg_default env_ok
             (snd (check_and_notify cfg_default env_ok btc_system ''BTCUSDT'' 102)) ''BTCUSDT'' 102))
          ''ATH'' ''BTCUSDT'' 102"
  by (simp add: check_and_notify_def check_price_movement_def fetch_extrema_def notify_extremum_def
      update_price_change_def entries_of_def exceeds_or_zero_def below_or_inf_def
      get_all_time_high_def get_all_time_low_def get_ninety_day_high_def get_ninety_day_low_def
      send_alert_def send_notification_def send_loop.simps send_email_def record_event_def
      tick_clock_def Let_def cfg_default_def env_ok_def btc_system_def fresh_system_def
      fresh_tracker_def fresh_alerts_def fresh_handler_def)

text \<open>
  Claim C4, as the code has it. For a tick with a positive price on a symbol with nothing
  cached and a collaborator that returns empty history, the coordinator makes its four
  lookups and, when the tick reaches the extremum check, compares the price with
  \<open>ath or 0\<close>: the tick is handed to \<open>send_alert\<close> as an ATH event. That branch is the
  first of the chain, so no ATL, 90-day-high or 90-day-low event is raised for the tick.
\<close>

theorem unknown_extrema_raise_ath:
  assumes none: "all_time_highs (tracker s) symbol = None" "all_time_lows (tracker s) symbol = None"
      "ninety_day_highs (tracker s) symbol = None" "ninety_day_lows (tracker s) symbol = None"
    and empty: "\<forall>n limit. api ev n symbol limit = Inr []"
    and pos: "0 < p"
    and pm: "fst (check_price_movement cfg ev s symbol p) = Inr ()"
  shows "(let s1 = snd (check_price_movement cfg ev s symbol p)
          in check_and_notify cfg ev s symbol p
               = send_alert cfg ev
                   (s1\<lparr>tracker := (tracker s1)\<lparr>api_calls := api_calls (tracker s1) + 4\<rparr>\<rparr>)
                   ''ATH'' symbol p)"
proof -
  obtain s1 where c: "check_price_movement cfg ev s symbol p = (Inr (), s1)"
    using pm by (cases "check_price_movement cfg ev s symbol p") auto
  have n1: "all_time_highs (tracker s1) symbol = None" "all_time_lows (tracker s1) symbol = None"
      "ninety_day_highs (tracker s1) symbol = None" "ninety_day_lows (tracker s1) symbol = None"
    using check_price_movement_frame [of cfg ev s symbol p] c none by simp_all
  have "fetch_extrema (api ev) (tracker s1) symbol
          = (Inr (None, None, None, None), (tracker s1)\<lparr>api_calls := api_calls (tracker s1) + 4\<rparr>)"
    using n1 empty
    by (simp add: fetch_extrema_def get_all_time_high_def get_all_time_low_def
        get_ninety_day_high_def get_ninety_day_low_def update_all_time_high_low_def
        update_ninety_day_high_low_def Let_def)
  then show ?thesis
    using c pos by (simp add: check_and_notify_def notify_extremum_def exceeds_or_zero_def)
qed

text \<open>Witness for C4: the first tick of BTCUSDT, at 100, on a new system.\<close>

theorem unknown_extrema_raise_ath_witness:
  "all_time_highs (tracker fresh_system) ''BTCUSDT'' = None
   \<and> all_time_lows (tracker fresh_system) ''BTCUSDT'' = None
   \<and> ninety_day_highs (tracker fresh_system) ''BTCUSDT'' = None
   \<and> ninety_day_lows (tracker fresh_system) ''BTCUSDT'' = None
   \<and> (\<forall>n limit. api env_ok n ''BTCUSDT'' limit = Inr [])
   \<and> fst (check_price_movement cfg_default env_ok fresh_system ''BTCUSDT'' 100) = Inr ()
   \<and> check_and_notify cfg_default env_ok fresh_system ''BTCUSDT'' 100
       = send_alert cfg_default env_ok
           ((snd (check_price_movement cfg_default env_ok fresh_system ''BTCUSDT'' 100))
              \<lparr>tracker := (tracker (snd (check_price_movement cfg_default env_ok fresh_system ''BTCUSDT'' 100)))
                  \<lparr>api_calls := api_calls (tracker (snd (check_price_movement cfg_default env_ok
                      fresh_system ''BTCUSDT'' 100))) + 4\<rparr>\<rparr>)
           ''ATH'' ''BTCUSDT'' 100"
proof -
  have n: "all_time_highs (tracker fresh_system) ''BTCUSDT'' = None"
      "all_time_lows (tracker fresh_system) ''BTCUSDT'' = None"
      "ninety_day_highs (tracker fresh_system) ''BTCUSDT'' = None"
      "ninety_day_lows (tracker fresh_system) ''BTCUSDT'' = None"
    by (simp_all add: fresh_system_def fresh_tracker_def)
  have e: "\<forall>n limit. api env_ok n ''BTCUSDT'' limit = Inr []"
    by (simp add: env_ok_def)
  have p: "(0::real) < 100"
    by simp
  have pm: "fst (check_price_movement cfg_default env_ok fresh_system ''BTCUSDT'' 100) = Inr ()"
    by (simp add: check_price_movement_def update_price_change_def entries_of_def tick_clock_def
        Let_def fresh_system_def fresh_tracker_def)
  note r = unknown_extrema_raise_ath [OF n e p pm, unfolded Let_def]
  show ?thesis
    using n e pm r by (intro conjI)
qed

text \<open>Counterexample to C4 as stated: nothing is cached and the collaborator has no
  history, yet the first tick raises an ATH event, whose notification is delivered.\<close>

theorem unknown_extrema_tick_alerts:
  "fst (check_and_notify cfg_default env_ok fresh_system ''BTCUSDT'' 100) = Inr ()
   \<and> all_time_highs (tracker (snd (check_and_notify cfg_default env_ok fresh_system ''BTCUSDT'' 100)))
        ''BTCUSDT'' = None
   \<and> last_notification_time (notifier (snd (check_and_notify cfg_default env_ok fresh_system ''BTCUSDT'' 100)))
        ''ATH Alert: BTCUSDT'' = Some 1005
   \<and> primary_attempts (notifier (snd (check_and_notify cfg_default env_ok fresh_system ''BTCUSDT'' 100))) = 1"
  by (simp add: check_and_notify_def check_price_movement_def fetch_extrema_def notify_extremum_def
      update_price_change_def entries_of_def exceeds_or_zero_def below_or_inf_def
      get_all_time_high_def get_all_time_low_def get_ninety_day_high_def get_ninety_day_low_def
      update_all_time_high_low_def update_ninety_day_high_low_def
      send_alert_def send_notification_def send_loop.simps send_email_def record_event_def
      tick_clock_def Let_def cfg_default_def env_ok_def fresh_system_def
      fresh_tracker_def fresh_alerts_def fresh_handler_def)

section \<open>Facts about the receive loop and the run loop\<close>

text \<open>The two kinds of malformed frame that the receive loop does skip.\<close>

lemma undecodable_frame_is_skipped:
  "receive_loop cfg ev symbols_to_track (Text None # frames) ending s
     = receive_loop cfg ev symbols_to_track frames ending
         ((tick_clock s)\<lparr>last_message_time := Some (time_time ev (clock_reads s))\<rparr>)"
  by (simp add: Let_def)

lemma unexpected_shape_is_skipped:
  "\<forall>items. data \<noteq> JArr items \<Longrightarrow>
   receive_loop cfg ev symbols_to_track (Text (Some data) # frames) ending s
     = receive_loop cfg ev symbols_to_track frames ending
         ((tick_clock s)\<lparr>last_message_time := Some (time_time ev (clock_reads s))\<rparr>)"
  by (cases data) (simp_all add: Let_def process_message_def)

text \<open>
  Claim C8, at the input where the code departs from it: a frame whose first entry names
  a tracked symbol and carries a price string that \<open>float\<close> rejects. The \<open>ValueError\<close>
  is not caught inside the loop, so the loop ends there: \<open>handle_websocket\<close> returns
  normally with the rest of the frame's entries unprocessed and every later frame of the
  connection still unread; only the arrival time of the frame has been recorded.
\<close>

theorem non_numeric_price_ends_receive_loop:
  assumes "py_float ev p = None" and "symbol \<in> symbols_to_track"
  shows "handle_websocket cfg ev symbols_to_track
           (Text (Some (JArr (JObj [(''s'', JStr symbol), (''p'', JStr p)] # others))) # frames, ending) s
         = (Inr (), (frames, ending),
            (tick_clock s)\<lparr>last_message_time := Some (time_time ev (clock_reads s))\<rparr>)"
  using assms
  by (simp add: handle_websocket_def process_message_def tracked_symbol_def float_of_def Let_def)

text \<open>Witness for C8: the price \<open>abc\<close> for BTCUSDT, followed by a well-formed frame that
  is never processed.\<close>

theorem non_numeric_price_ends_receive_loop_witness:
  "py_float env_ok ''abc'' = None
   \<and> ''BTCUSDT'' \<in> {''BTCUSDT''}
   \<and> handle_websocket cfg_default env_ok {''BTCUSDT''} ([bad_price_frame, good_frame], None) fresh_system
       = (Inr (), ([good_frame], None), fresh_system\<lparr>last_message_time := Some 1000, clock_reads := 1\<rparr>)"
proof -
  have f: "py_float env_ok ''abc'' = None"
    by (simp add: env_ok_def decimal_float_def digit_value_def)
  have m: "''BTCUSDT'' \<in> {''BTCUSDT''}"
    by simp
  show ?thesis
    using f non_numeric_price_ends_receive_loop
      [OF f m, of cfg_default "[]" "[good_frame]" None fresh_system]
    by (simp add: bad_price_frame_def tick_clock_def env_ok_def fresh_system_def)
qed

text \<open>The same connection without the malformed frame: the well-formed frame is
  processed, and its tick reaches the tracker.\<close>

lemma good_frame_is_processed:
  "price_changes (tracker (snd (snd (handle_websocket cfg_default env_ok {''BTCUSDT''}
       ([good_frame], None) btc_system)))) ''BTCUSDT''
     = Some [\<lparr>entry_price = 100, entry_timestamp = 1005\<rparr>]"
  by (simp add: handle_websocket_def process_message_def tracked_symbol_def float_of_def
      good_frame_def decimal_float_def digit_value_def
      check_and_notify_def check_price_movement_def fetch_extrema_def notify_extremum_def
      update_price_change_def entries_of_def exceeds_or_zero_def below_or_inf_def
      get_all_time_high_def get_all_time_low_def get_ninety_day_high_def get_ninety_day_low_def
      tick_clock_def Let_def cfg_default_def env_ok_def btc_system_def fresh_system_def
      fresh_tracker_def fresh_alerts_def fresh_handler_def)

text \<open>
  Claim C9, at the input where the code departs from it: a pass of the run loop in which
  \<open>websockets.connect\<close> raises \<open>InvalidStatusCode\<close>, no shutdown was requested and the
  retry budget is not used up. The generic handler of \<open>run\<close> takes the exception: the
  retry counter goes up by one, the loop sleeps for the backoff delay and goes on to the
  next connection attempt.
\<close>

theorem handshake_rejection_is_retried:
  assumes "\<not> exit_before a" and "connection a = Inl InvalidStatusCode" and "\<not> exit_after a"
    and "retry_count + 1 \<le> MAX_RETRIES cfg"
  shows "run_loop cfg ev symbols_to_track (a # rest) retry_count waits s
         = run_loop cfg ev symbols_to_track rest (retry_count + 1)
             (waits @ [min (INITIAL_RETRY_DELAY cfg * 2 ^ nat (retry_count + 1)) (MAX_RETRY_DELAY cfg)]) s"
  using assms by simp

text \<open>Witness for C9: with the default configuration the first rejected attempt is
  followed by a sleep of two seconds, and the loop is still running.\<close>

theorem handshake_rejection_is_retried_witness:
  "connection rejected_attempt = Inl InvalidStatusCode
   \<and> (0::int) + 1 \<le> MAX_RETRIES cfg_default
   \<and> run_loop cfg_default env_ok {''BTCUSDT''} [rejected_attempt] 0 [] fresh_system
       = (StillRunning, 1, [2], fresh_system)"
proof -
  have a: "\<not> exit_before rejected_attempt"
    by (simp add: rejected_attempt_def)
  have b: "connection rejected_attempt = Inl InvalidStatusCode"
    by (simp add: rejected_attempt_def)
  have c: "\<not> exit_after rejected_attempt"
    by (simp add: rejected_attempt_def)
  have d: "(0::int) + 1 \<le> MAX_RETRIES cfg_default"
    by (simp add: cfg_default_def)
  show ?thesis
    using b d handshake_rejection_is_retried
      [OF a b c d, of env_ok "{''BTCUSDT''}" "[]" "[]" fresh_system]
    by (simp add: cfg_default_def)
qed

text \<open>The same happens when the exception comes out of \<open>handle_websocket\<close>, which logs
  ``Exiting...'' and re-raises it; and six rejections in a row do end the loop, through
  the retry budget.\<close>

lemma handler_reraise_is_retried:
  "run_loop cfg_default env_ok {''BTCUSDT''}
     [\<lparr>exit_before = False, connection = Inr ([], Some InvalidStatusCode), exit_after = False\<rparr>]
     0 [] fresh_system
   = (StillRunning, 1, [2], fresh_system)"
  by (simp add: cfg_default_def handle_websocket_def)

lemma six_rejections_exhaust_retries:
  "run_loop cfg_default env_ok {''BTCUSDT''}
     [rejected_attempt, rejected_attempt, rejected_attempt, rejected_attempt, rejected_attempt,
      rejected_attempt] 0 [] fresh_system
   = (Exited, 6, [2, 4, 8, 16, 32], fresh_system)"
  by (simp add: cfg_default_def rejected_attempt_def)


end
